theory Spec2Isabelle
  imports Complex_Main
begin

section \<open>Data model (web/src/types/index.ts)\<close>

text \<open>
  A JavaScript \<^verbatim>\<open>number\<close> that arrives through \<^verbatim>\<open>response.json()\<close> is modelled as a
  rational: the values compared, sorted and looked up below are finite, and on finite
  values \<^verbatim>\<open>===\<close>, the Set's equality and the sign of \<^verbatim>\<open>a - b\<close> agree with equality
  and order of the rationals. A value that may be \<^verbatim>\<open>undefined\<close> (a field that is absent
  on an object, \<^verbatim>\<open>null\<close> state) is an \<open>option\<close>.
\<close>

type_synonym number = rat

subsection \<open>Double arithmetic\<close>

text \<open>
  The product and the quotient the code computes are IEEE 754 binary64 operations: the
  exact result, rounded to the nearest double, ties to the even significand. A double
  has 53 significant bits above the exponent \<open>-1022\<close> and the fixed quantum \<open>2^-1074\<close>
  below it; a result that rounds to \<open>2^1024\<close> or beyond is an infinity. (The operands
  here are finite and the divisor is not zero, so no NaN arises; the sign of a zero is
  not kept.)
\<close>

datatype double = Number number | Infinity | MinusInfinity

text \<open>The number of binary digits of \<open>n\<close>.\<close>

fun bit_length :: "nat \<Rightarrow> nat" where
  "bit_length n = (if n = 0 then 0 else Suc (bit_length (n div 2)))"

declare bit_length.simps [simp del]

text \<open>For \<open>0 < a\<close>, the exponent \<open>e\<close> with \<open>2^e \<le> a < 2^(e+1)\<close>.\<close>

definition log2_floor :: "rat \<Rightarrow> int" where
  "log2_floor a =
     (if 1 \<le> a then int (bit_length (nat \<lfloor>a\<rfloor>)) - 1
      else - int (bit_length (nat \<lceil>1 / a\<rceil> - 1)))"

definition pow2 :: "int \<Rightarrow> rat" where
  "pow2 e = (if 0 \<le> e then 2 ^ nat e else 1 / 2 ^ nat (- e))"

definition round_half_even :: "rat \<Rightarrow> int" where
  "round_half_even y =
     (let n = \<lfloor>y\<rfloor>; f = y - of_int n
      in if f < 1 / 2 then n else if 1 / 2 < f then n + 1 else if even n then n else n + 1)"

definition binary64 :: "rat \<Rightarrow> double" where
  "binary64 v =
     (if v = 0 then Number 0
      else
        let a = \<bar>v\<bar>;
            q = pow2 (max (log2_floor a) (- 1022) - 52);
            r = of_int (round_half_even (a / q)) * q
        in if 2 ^ 1024 \<le> r then (if 0 < v then Infinity else MinusInfinity)
           else Number (if 0 < v then r else - r))"

text \<open>\<^verbatim>\<open>a * b\<close> and \<^verbatim>\<open>a / b\<close> on doubles.\<close>

definition double_times :: "number \<Rightarrow> number \<Rightarrow> double" where
  "double_times a b = binary64 (a * b)"

definition double_divide :: "number \<Rightarrow> number \<Rightarrow> double" where
  "double_divide a b = binary64 (a / b)"

text \<open>\<^verbatim>\<open>Record<string, number>\<close>: reading a key that is absent gives \<^verbatim>\<open>undefined\<close>.\<close>

type_synonym row = "string \<rightharpoonup> number"

datatype run_state = Queued | Running | Done | Error

record RunStatus =
  st_status :: run_state
  st_progress :: number
  st_message :: string
  st_metrics :: "(string \<times> number) list option"

record TimeseriesData =
  ts_index :: "string list"
  ts_columns :: "string list"
  ts_data :: "number list list"

record SweepData =
  sw_columns :: "string list"
  sw_data :: "row list"

record RunResponse =
  run_id :: string

datatype run_mode = Single | Sweep

record ('cfg, 'opt) RunRequest =
  mode :: run_mode
  config :: 'cfg
  run_options :: 'opt

section \<open>The sweep pivot (components/SweepTab.tsx, the \<^verbatim>\<open>useMemo\<close> body)\<close>

text \<open>
  \<^verbatim>\<open>[...new Set(xs)]\<close>: the elements of \<open>xs\<close> in the order of their first occurrence,
  each once.
\<close>

fun set_add_all :: "'a list \<Rightarrow> 'a list \<Rightarrow> 'a list" where
  "set_add_all seen [] = seen"
| "set_add_all seen (x # xs) = set_add_all (if x \<in> set seen then seen else seen @ [x]) xs"

definition new_Set :: "'a list \<Rightarrow> 'a list" where
  "new_Set xs = set_add_all [] xs"

text \<open>
  \<^verbatim>\<open>.sort((a, b) => a - b)\<close>: \<^verbatim>\<open>Array.prototype.sort\<close> moves every \<^verbatim>\<open>undefined\<close> element
  behind the others without calling the comparator, and orders the others by the sign of
  \<^verbatim>\<open>a - b\<close>, that is ascending.
\<close>

definition sort_numeric :: "number option list \<Rightarrow> number option list" where
  "sort_numeric vs = map Some (sort (List.map_filter id vs)) @ filter (\<lambda>v. v = None) vs"

text \<open>\<^verbatim>\<open>v || 0\<close> on a number that may be undefined: \<open>0\<close> when \<open>v\<close> is falsy.\<close>

definition or_zero :: "number option \<Rightarrow> number" where
  "or_zero v = (case v of None \<Rightarrow> 0 | Some n \<Rightarrow> if n = 0 then 0 else n)"

text \<open>\<^verbatim>\<open>data.data.find((r) => r.pv_kw === pv && r.batt_kwh === batt)\<close>\<close>

definition find_row :: "row list \<Rightarrow> number option \<Rightarrow> number option \<Rightarrow> row option" where
  "find_row rows pv batt = find (\<lambda>r. r ''pv_kw'' = pv \<and> r ''batt_kwh'' = batt) rows"

text \<open>
  The two values pushed for one \<open>(batt, pv)\<close> pair (lines 33 and 34): the double product
  \<^verbatim>\<open>(row.utilization || 0) * 100\<close>, or the literal \<open>0\<close>; and the field itself.
\<close>

definition utilization_cell :: "row option \<Rightarrow> double" where
  "utilization_cell found =
     (case found of Some r \<Rightarrow> double_times (or_zero (r ''utilization'')) 100 | None \<Rightarrow> Number 0)"

definition flops_cell :: "row option \<Rightarrow> number" where
  "flops_cell found = (case found of Some r \<Rightarrow> or_zero (r ''total_flops'') | None \<Rightarrow> 0)"

text \<open>
  The inner loop \<^verbatim>\<open>for (const pv of pvSizes)\<close>, with the two rows under construction as
  accumulators, and the outer loop \<^verbatim>\<open>for (const batt of battSizes)\<close>, with the two
  matrices as accumulators.
\<close>

fun pv_loop :: "row list \<Rightarrow> number option \<Rightarrow> number option list \<Rightarrow>
    double list \<times> number list \<Rightarrow> double list \<times> number list" where
  "pv_loop rows batt [] acc = acc"
| "pv_loop rows batt (pv # pvs) (utilizationRow, flopsRow) =
     pv_loop rows batt pvs
       (utilizationRow @ [utilization_cell (find_row rows pv batt)],
        flopsRow @ [flops_cell (find_row rows pv batt)])"

fun batt_loop :: "row list \<Rightarrow> number option list \<Rightarrow> number option list \<Rightarrow>
    double list list \<times> number list list \<Rightarrow> double list list \<times> number list list" where
  "batt_loop rows pvSizes [] acc = acc"
| "batt_loop rows pvSizes (batt # batts) (utilizationMatrix, flopsMatrix) =
     (case pv_loop rows batt pvSizes ([], []) of
        (utilizationRow, flopsRow) \<Rightarrow>
          batt_loop rows pvSizes batts
            (utilizationMatrix @ [utilizationRow], flopsMatrix @ [flopsRow]))"

definition pvSizes :: "SweepData \<Rightarrow> number option list" where
  "pvSizes d = sort_numeric (new_Set (map (\<lambda>r. r ''pv_kw'') (sw_data d)))"

definition battSizes :: "SweepData \<Rightarrow> number option list" where
  "battSizes d = sort_numeric (new_Set (map (\<lambda>r. r ''batt_kwh'') (sw_data d)))"

definition utilizationMatrix :: "SweepData \<Rightarrow> double list list" where
  "utilizationMatrix d = fst (batt_loop (sw_data d) (pvSizes d) (battSizes d) ([], []))"

definition flopsMatrix :: "SweepData \<Rightarrow> number list list" where
  "flopsMatrix d = snd (batt_loop (sw_data d) (pvSizes d) (battSizes d) ([], []))"

text \<open>
  The two objects the \<^verbatim>\<open>useMemo\<close> returns; the flops matrix is returned after the double
  division \<^verbatim>\<open>v / 1e15\<close> of every cell (line 48).
\<close>

record heatmap =
  hm_z :: "double list list"
  hm_x :: "number option list"
  hm_y :: "number option list"

definition utilizationHeatmap :: "SweepData \<Rightarrow> heatmap" where
  "utilizationHeatmap d = \<lparr>hm_z = utilizationMatrix d, hm_x = pvSizes d, hm_y = battSizes d\<rparr>"

definition flopsHeatmap :: "SweepData \<Rightarrow> heatmap" where
  "flopsHeatmap d =
     \<lparr>hm_z = map (\<lambda>row. map (\<lambda>v. double_divide v (10 ^ 15)) row) (flopsMatrix d),
       hm_x = pvSizes d, hm_y = battSizes d\<rparr>"

text \<open>
  The reading of the pivot that the matrices are compared with: the order in which the
  axis values stand (a number before a larger number, every number before
  \<^verbatim>\<open>undefined\<close>), and the value of the cell for an \<open>(x, y)\<close> pair: the metric of the
  first row with that pair, \<open>0\<close> when the row lacks the metric or no row has the pair.
\<close>

definition sorts_before :: "number option \<Rightarrow> number option \<Rightarrow> bool" where
  "sorts_before a b =
     (case a of None \<Rightarrow> False | Some m \<Rightarrow> (case b of None \<Rightarrow> True | Some n \<Rightarrow> m < n))"

definition metric_or_0 :: "string \<Rightarrow> row \<Rightarrow> number" where
  "metric_or_0 metric r = (case r metric of None \<Rightarrow> 0 | Some v \<Rightarrow> v)"

definition spec_cell :: "string \<Rightarrow> row list \<Rightarrow> number option \<Rightarrow> number option \<Rightarrow> number" where
  "spec_cell metric rows xv yv =
     (case find (\<lambda>r. r ''pv_kw'' = xv \<and> r ''batt_kwh'' = yv) rows of
        None \<Rightarrow> 0
      | Some r \<Rightarrow> metric_or_0 metric r)"

text \<open>The row set of the specification's example, with \<open>total_flops\<close> as the metric.\<close>

definition example_sweep :: SweepData where
  "example_sweep =
     \<lparr>sw_columns = [''pv_kw'', ''batt_kwh'', ''total_flops''],
      sw_data = [[''pv_kw'' \<mapsto> 1, ''batt_kwh'' \<mapsto> 2, ''total_flops'' \<mapsto> 10],
                 [''pv_kw'' \<mapsto> 2, ''batt_kwh'' \<mapsto> 2, ''total_flops'' \<mapsto> 20],
                 [''pv_kw'' \<mapsto> 1, ''batt_kwh'' \<mapsto> 4, ''total_flops'' \<mapsto> 30]]\<rparr>"

text \<open>A fully dense 2 by 2 grid, its rows in no particular order, and one of its rows.\<close>

definition dense_row :: row where
  "dense_row =
     [''pv_kw'' \<mapsto> 1, ''batt_kwh'' \<mapsto> 4, ''utilization'' \<mapsto> 3 / 4, ''total_flops'' \<mapsto> 30]"

definition dense_sweep :: SweepData where
  "dense_sweep =
     \<lparr>sw_columns = [''pv_kw'', ''batt_kwh'', ''utilization'', ''total_flops''],
      sw_data = [[''pv_kw'' \<mapsto> 2, ''batt_kwh'' \<mapsto> 4, ''utilization'' \<mapsto> 1 / 2, ''total_flops'' \<mapsto> 40],
                 [''pv_kw'' \<mapsto> 1, ''batt_kwh'' \<mapsto> 2, ''utilization'' \<mapsto> 1 / 4, ''total_flops'' \<mapsto> 10],
                 [''pv_kw'' \<mapsto> 2, ''batt_kwh'' \<mapsto> 2, ''utilization'' \<mapsto> 1 / 8, ''total_flops'' \<mapsto> 20],
                 dense_row]\<rparr>"

text \<open>
  A single row whose utilization is the double \<^verbatim>\<open>0.07\<close> and whose total_flops is the
  double \<^verbatim>\<open>1e23\<close>.
\<close>

definition rounding_sweep :: SweepData where
  "rounding_sweep =
     \<lparr>sw_columns = [''pv_kw'', ''batt_kwh'', ''utilization'', ''total_flops''],
      sw_data = [[''pv_kw'' \<mapsto> 1, ''batt_kwh'' \<mapsto> 2,
                  ''utilization'' \<mapsto> 1261007895663739 / 18014398509481984,
                  ''total_flops'' \<mapsto> 99999999999999991611392]]\<rparr>"

section \<open>The run orchestrator (hooks/useSimulation.ts)\<close>

text \<open>The five \<^verbatim>\<open>useState\<close> cells of the hook; \<^verbatim>\<open>null\<close> is \<open>None\<close>.\<close>

record hook_state =
  runId :: "string option"
  status :: "RunStatus option"
  timeseries :: "TimeseriesData option"
  sweep :: "SweepData option"
  error :: "string option"

definition initial_state :: hook_state where
  "initial_state = \<lparr>runId = None, status = None, timeseries = None, sweep = None, error = None\<rparr>"

text \<open>
  A settled promise: fulfilled with a value, or rejected with an \<^verbatim>\<open>Error\<close>, of which the
  hook reads the message only (\<^verbatim>\<open>fetchJson\<close> throws \<^verbatim>\<open>new Error(`API error: ...`)\<close> on
  every response that is not ok, a 404 included).
\<close>

datatype 'a settled = Fulfilled 'a | Rejected string

text \<open>\<^verbatim>\<open>!!runId\<close> on a \<^verbatim>\<open>string | null\<close>: false on \<^verbatim>\<open>null\<close> and on the empty string.\<close>

definition truthy :: "string option \<Rightarrow> bool" where
  "truthy v = (case v of None \<Rightarrow> False | Some str \<Rightarrow> str \<noteq> [])"

text \<open>\<^verbatim>\<open>status?.status\<close>\<close>

definition status_status :: "hook_state \<Rightarrow> run_state option" where
  "status_status s = (case status s of None \<Rightarrow> None | Some st \<Rightarrow> Some (st_status st))"

definition isRunning :: "hook_state \<Rightarrow> bool" where
  "isRunning s = (status_status s = Some Queued \<or> status_status s = Some Running)"

subsection \<open>The create-run mutation and the three commands\<close>

definition onSuccess :: "RunResponse \<Rightarrow> hook_state \<Rightarrow> hook_state" where
  "onSuccess d s =
     s\<lparr>runId := Some (run_id d),
       status := Some \<lparr>st_status = Queued, st_progress = 0, st_message = ''Run queued'',
                       st_metrics = None\<rparr>,
       error := None\<rparr>"

definition onError :: "string \<Rightarrow> hook_state \<Rightarrow> hook_state" where
  "onError message s = s\<lparr>error := Some message\<rparr>"

text \<open>
  \<^verbatim>\<open>createRunMutation.mutateAsync(request)\<close>, as TanStack Query documents it: the mutation
  function runs on the request; when its promise fulfils, \<^verbatim>\<open>onSuccess\<close> runs and the
  returned promise fulfils with the data; when it rejects, \<^verbatim>\<open>onError\<close> runs and the
  returned promise rejects with the same error. The collaborator \<^verbatim>\<open>api.createRun\<close> is the
  parameter \<open>createRun\<close>: the outcome of the call for each request.
\<close>

definition mutateAsync ::
    "(('cfg, 'opt) RunRequest \<Rightarrow> RunResponse settled) \<Rightarrow> ('cfg, 'opt) RunRequest \<Rightarrow>
     hook_state \<Rightarrow> hook_state \<times> RunResponse settled" where
  "mutateAsync createRun request s =
     (case createRun request of
        Fulfilled d \<Rightarrow> (onSuccess d s, Fulfilled d)
      | Rejected e \<Rightarrow> (onError e s, Rejected e))"

text \<open>
  \<^verbatim>\<open>setTimeseries(null); setSweep(null);\<close>: the state at the \<^verbatim>\<open>await\<close>, when the
  create-run call is issued.
\<close>

definition clear_artifacts :: "hook_state \<Rightarrow> hook_state" where
  "clear_artifacts s = s\<lparr>timeseries := None, sweep := None\<rparr>"

text \<open>
  \<^verbatim>\<open>runSingle\<close> and \<^verbatim>\<open>runSweep\<close> are \<^verbatim>\<open>async\<close> functions with no \<^verbatim>\<open>try\<close>: the promise
  they return rejects when the awaited promise does. The result is the state and the
  settled promise the caller holds.
\<close>

definition runSingle ::
    "(('cfg, 'opt) RunRequest \<Rightarrow> RunResponse settled) \<Rightarrow> 'cfg \<Rightarrow> 'opt \<Rightarrow>
     hook_state \<Rightarrow> hook_state \<times> unit settled" where
  "runSingle createRun cfg options s =
     (case mutateAsync createRun \<lparr>mode = Single, config = cfg, run_options = options\<rparr>
             (clear_artifacts s) of
        (s', Fulfilled d) \<Rightarrow> (s', Fulfilled ())
      | (s', Rejected e) \<Rightarrow> (s', Rejected e))"

definition runSweep ::
    "(('cfg, 'opt) RunRequest \<Rightarrow> RunResponse settled) \<Rightarrow> 'cfg \<Rightarrow> 'opt \<Rightarrow>
     hook_state \<Rightarrow> hook_state \<times> unit settled" where
  "runSweep createRun cfg options s =
     (case mutateAsync createRun \<lparr>mode = Sweep, config = cfg, run_options = options\<rparr>
             (clear_artifacts s) of
        (s', Fulfilled d) \<Rightarrow> (s', Fulfilled ())
      | (s', Rejected e) \<Rightarrow> (s', Rejected e))"

definition reset :: "hook_state \<Rightarrow> hook_state" where
  "reset s = s\<lparr>runId := None, status := None, timeseries := None, sweep := None, error := None\<rparr>"

subsection \<open>The three queries and their effects\<close>

text \<open>
  The options the hook passes to \<^verbatim>\<open>useQuery\<close>: the key, the gate and the refetch
  interval in milliseconds (absent on the two artifact queries).
\<close>

record query_options =
  queryKey :: "string \<times> string option"
  enabled :: bool
  refetchInterval :: "nat option"

definition pollQuery :: "hook_state \<Rightarrow> query_options" where
  "pollQuery s =
     \<lparr>queryKey = (''runStatus'', runId s),
      enabled = (truthy (runId s) \<and> isRunning s),
      refetchInterval = Some 1000\<rparr>"

definition timeseriesQuery :: "hook_state \<Rightarrow> query_options" where
  "timeseriesQuery s =
     \<lparr>queryKey = (''timeseries'', runId s),
      enabled = (truthy (runId s) \<and> status_status s = Some Done),
      refetchInterval = None\<rparr>"

definition sweepQuery :: "hook_state \<Rightarrow> query_options" where
  "sweepQuery s =
     \<lparr>queryKey = (''sweep'', runId s),
      enabled = (truthy (runId s) \<and> status_status s = Some Done),
      refetchInterval = None\<rparr>"


text \<open>
  An artifact fetch, read on the hook's state alone, for a call whose result is new to
  the query (the first fetch for a handle): a call that fulfils becomes the query's
  \<^verbatim>\<open>data\<close>, and the effect on \<^verbatim>\<open>data\<close> stores it; a call that rejects leaves \<^verbatim>\<open>data\<close> as
  it was, the effect does not run, and the hook reads nothing else of the query: no
  \<^verbatim>\<open>error\<close>, no \<^verbatim>\<open>isError\<close>. The query cache, which decides whether a result is new,
  is made explicit further down.
\<close>

definition timeseries_settled :: "TimeseriesData settled \<Rightarrow> hook_state \<Rightarrow> hook_state" where
  "timeseries_settled outcome s =
     (if enabled (timeseriesQuery s)
      then (case outcome of
              Fulfilled timeseriesData \<Rightarrow> s\<lparr>timeseries := Some timeseriesData\<rparr>
            | Rejected e \<Rightarrow> s)
      else s)"

definition sweep_settled :: "SweepData settled \<Rightarrow> hook_state \<Rightarrow> hook_state" where
  "sweep_settled outcome s =
     (if enabled (sweepQuery s)
      then (case outcome of Fulfilled sweepData \<Rightarrow> s\<lparr>sweep := Some sweepData\<rparr> | Rejected e \<Rightarrow> s)
      else s)"

text \<open>What the hook returns to its consumer (\<^verbatim>\<open>UseSimulationResult\<close>, the data part).\<close>

record UseSimulationResult =
  res_runId :: "string option"
  res_status :: "RunStatus option"
  res_isRunning :: bool
  res_error :: "string option"
  res_timeseries :: "TimeseriesData option"
  res_sweep :: "SweepData option"

definition useSimulation :: "hook_state \<Rightarrow> UseSimulationResult" where
  "useSimulation s =
     \<lparr>res_runId = runId s, res_status = status s, res_isRunning = isRunning s,
      res_error = error s, res_timeseries = timeseries s, res_sweep = sweep s\<rparr>"

subsection \<open>The query cache and the effects\<close>

text \<open>
  The hook with the part of the library it reads: for each of the three queries, the
  data TanStack Query holds under the key \<^verbatim>\<open>[name, runId]\<close>. What \<^verbatim>\<open>useQuery\<close> returns
  as \<^verbatim>\<open>data\<close> at a render is the entry under the current key, also while the query is
  disabled. (The library drops the entry of a key that no query has observed for its
  cache time; here entries stay. The statements below read the entry under the current
  key only, which is observed.)
\<close>

record world =
  hook :: hook_state
  statusCache :: "string option \<Rightarrow> RunStatus option"
  timeseriesCache :: "string option \<Rightarrow> TimeseriesData option"
  sweepCache :: "string option \<Rightarrow> SweepData option"

definition initial_world :: world where
  "initial_world =
     \<lparr>hook = initial_state, statusCache = (\<lambda>key. None), timeseriesCache = (\<lambda>key. None),
      sweepCache = (\<lambda>key. None)\<rparr>"

definition pollStatus :: "world \<Rightarrow> RunStatus option" where
  "pollStatus w = statusCache w (runId (hook w))"

definition timeseriesData :: "world \<Rightarrow> TimeseriesData option" where
  "timeseriesData w = timeseriesCache w (runId (hook w))"

definition sweepData :: "world \<Rightarrow> SweepData option" where
  "sweepData w = sweepCache w (runId (hook w))"

text \<open>
  \<^verbatim>\<open>useEffect(..., [data])\<close> runs its body when \<^verbatim>\<open>data\<close> is not the same object as at the
  render before. The library keeps the object of a key when a fetch returns data equal
  to it (structural sharing) and takes the new one otherwise; data under different keys
  are different objects; \<^verbatim>\<open>undefined\<close> is \<^verbatim>\<open>undefined\<close>.
\<close>

definition changed :: "string option \<Rightarrow> 'a option \<Rightarrow> string option \<Rightarrow> 'a option \<Rightarrow> bool" where
  "changed key d key' d' = (d' \<noteq> d \<or> (key' \<noteq> key \<and> d' \<noteq> None))"

text \<open>
  The three effects (lines 62-66, 76-80, 91-95), between the world before an event and
  the world after it: \<^verbatim>\<open>if (pollStatus) setStatus(pollStatus)\<close> and its two siblings.
\<close>

definition pollStatus_effect :: "world \<Rightarrow> world \<Rightarrow> hook_state \<Rightarrow> hook_state" where
  "pollStatus_effect before after s =
     (if changed (runId (hook before)) (pollStatus before) (runId (hook after)) (pollStatus after)
      then (case pollStatus after of Some p \<Rightarrow> s\<lparr>status := Some p\<rparr> | None \<Rightarrow> s)
      else s)"

definition timeseriesData_effect :: "world \<Rightarrow> world \<Rightarrow> hook_state \<Rightarrow> hook_state" where
  "timeseriesData_effect before after s =
     (if changed (runId (hook before)) (timeseriesData before)
           (runId (hook after)) (timeseriesData after)
      then (case timeseriesData after of Some t \<Rightarrow> s\<lparr>timeseries := Some t\<rparr> | None \<Rightarrow> s)
      else s)"

definition sweepData_effect :: "world \<Rightarrow> world \<Rightarrow> hook_state \<Rightarrow> hook_state" where
  "sweepData_effect before after s =
     (if changed (runId (hook before)) (sweepData before) (runId (hook after)) (sweepData after)
      then (case sweepData after of Some t \<Rightarrow> s\<lparr>sweep := Some t\<rparr> | None \<Rightarrow> s)
      else s)"

definition effects :: "world \<Rightarrow> world \<Rightarrow> world" where
  "effects before after =
     after\<lparr>hook :=
       sweepData_effect before after
         (timeseriesData_effect before after
           (pollStatus_effect before after (hook after)))\<rparr>"

text \<open>
  A query call that settles: it was made only if the query is enabled; fulfilled, its
  result is the entry under the key from then on; rejected, the entry stays.
\<close>

definition poll_fetched :: "RunStatus settled \<Rightarrow> world \<Rightarrow> world" where
  "poll_fetched outcome w =
     (if enabled (pollQuery (hook w))
      then (case outcome of
              Fulfilled response \<Rightarrow>
                w\<lparr>statusCache := (statusCache w)(runId (hook w) := Some response)\<rparr>
            | Rejected e \<Rightarrow> w)
      else w)"

definition timeseries_fetched :: "TimeseriesData settled \<Rightarrow> world \<Rightarrow> world" where
  "timeseries_fetched outcome w =
     (if enabled (timeseriesQuery (hook w))
      then (case outcome of
              Fulfilled response \<Rightarrow>
                w\<lparr>timeseriesCache := (timeseriesCache w)(runId (hook w) := Some response)\<rparr>
            | Rejected e \<Rightarrow> w)
      else w)"

definition sweep_fetched :: "SweepData settled \<Rightarrow> world \<Rightarrow> world" where
  "sweep_fetched outcome w =
     (if enabled (sweepQuery (hook w))
      then (case outcome of
              Fulfilled response \<Rightarrow>
                w\<lparr>sweepCache := (sweepCache w)(runId (hook w) := Some response)\<rparr>
            | Rejected e \<Rightarrow> w)
      else w)"

text \<open>A poll that settles, with the effects of the render that follows.\<close>

definition poll_settled :: "RunStatus settled \<Rightarrow> world \<Rightarrow> world" where
  "poll_settled outcome w = effects w (poll_fetched outcome w)"

subsection \<open>Runs of the orchestrator\<close>

text \<open>
  The events that change the world, each with the outcome of the collaborator's call it
  rests on and followed by the effects, and the world after a sequence of them.
\<close>

datatype ('cfg, 'opt) event =
    RunSingle 'cfg 'opt "RunResponse settled"
  | RunSweep 'cfg 'opt "RunResponse settled"
  | Reset
  | PollSettled "RunStatus settled"
  | TimeseriesSettled "TimeseriesData settled"
  | SweepSettled "SweepData settled"

fun step :: "world \<Rightarrow> ('cfg, 'opt) event \<Rightarrow> world" where
  "step w (RunSingle cfg options outcome) =
     effects w (w\<lparr>hook := fst (runSingle (\<lambda>request. outcome) cfg options (hook w))\<rparr>)"
| "step w (RunSweep cfg options outcome) =
     effects w (w\<lparr>hook := fst (runSweep (\<lambda>request. outcome) cfg options (hook w))\<rparr>)"
| "step w Reset = effects w (w\<lparr>hook := reset (hook w)\<rparr>)"
| "step w (PollSettled outcome) = poll_settled outcome w"
| "step w (TimeseriesSettled outcome) = effects w (timeseries_fetched outcome w)"
| "step w (SweepSettled outcome) = effects w (sweep_fetched outcome w)"

definition run :: "world \<Rightarrow> ('cfg, 'opt) event list \<Rightarrow> world" where
  "run w events = foldl step w events"




text \<open>States and values the statements below are evaluated on.\<close>

definition status_of :: "run_state \<Rightarrow> number \<Rightarrow> string \<Rightarrow> RunStatus" where
  "status_of st p m = \<lparr>st_status = st, st_progress = p, st_message = m, st_metrics = None\<rparr>"

definition done_state :: hook_state where
  "done_state =
     \<lparr>runId = Some ''run-1'', status = Some (status_of Done 100 ''Complete''),
      timeseries = Some \<lparr>ts_index = [''t0''], ts_columns = [''p''], ts_data = [[1]]\<rparr>,
      sweep = None, error = None\<rparr>"




definition not_found :: string where
  "not_found = ''API error: 404 - Sweep not found''"

definition server_error :: string where
  "server_error = ''API error: 500 - Internal Server Error''"

section \<open>Properties of the sweep pivot\<close>

lemma set_set_add_all: "set (set_add_all seen xs) = set seen \<union> set xs"
  by (induction xs arbitrary: seen) auto

lemma distinct_set_add_all: "distinct seen \<Longrightarrow> distinct (set_add_all seen xs)"
  by (induction xs arbitrary: seen) auto

lemma set_new_Set: "set (new_Set xs) = set xs"
  by (simp add: new_Set_def set_set_add_all)

lemma distinct_new_Set: "distinct (new_Set xs)"
  by (simp add: new_Set_def distinct_set_add_all)

lemma set_map_filter_id: "set (List.map_filter id vs) = {n. Some n \<in> set vs}"
  by (induction vs) (auto simp: List.map_filter_simps split: option.splits)

lemma distinct_map_filter_id: "distinct vs \<Longrightarrow> distinct (List.map_filter id vs)"
  by (induction vs) (auto simp: List.map_filter_simps set_map_filter_id split: option.splits)

lemma set_sort_numeric: "set (sort_numeric vs) = set vs"
proof -
  have "Some ` {n. Some n \<in> set vs} \<union> {v \<in> set vs. v = None} = set vs"
  proof (rule set_eqI)
    fix v show "v \<in> Some ` {n. Some n \<in> set vs} \<union> {v \<in> set vs. v = None} \<longleftrightarrow> v \<in> set vs"
      by (cases v) auto
  qed
  then show ?thesis by (simp add: sort_numeric_def set_map_filter_id)
qed

lemma distinct_sort_numeric: "distinct vs \<Longrightarrow> distinct (sort_numeric vs)"
  by (auto simp: sort_numeric_def distinct_map inj_on_def distinct_map_filter_id)

lemma sorted_sort_numeric:
  assumes "distinct vs"
  shows "sorted_wrt sorts_before (sort_numeric vs)"
proof -
  have "sorted_wrt (<) (sort (List.map_filter id vs))"
    using assms by (simp add: strict_sorted_iff distinct_map_filter_id)
  then have "sorted_wrt sorts_before (map Some (sort (List.map_filter id vs)))"
    by (simp add: sorted_wrt_map sorts_before_def)
  moreover have "sorted_wrt sorts_before (filter (\<lambda>v. v = None) vs)"
    using assms by (induction vs) (auto simp: sorts_before_def)
  ultimately show ?thesis
    by (auto simp: sort_numeric_def sorted_wrt_append sorts_before_def)
qed

lemma pv_loop_eq:
  "pv_loop rows batt pvs (us, fs) =
     (us @ map (\<lambda>pv. utilization_cell (find_row rows pv batt)) pvs,
      fs @ map (\<lambda>pv. flops_cell (find_row rows pv batt)) pvs)"
  by (induction pvs arbitrary: us fs) simp_all

lemma batt_loop_eq:
  "batt_loop rows pvs batts (um, fm) =
     (um @ map (\<lambda>batt. map (\<lambda>pv. utilization_cell (find_row rows pv batt)) pvs) batts,
      fm @ map (\<lambda>batt. map (\<lambda>pv. flops_cell (find_row rows pv batt)) pvs) batts)"
  by (induction batts arbitrary: um fm) (simp_all add: pv_loop_eq)

lemma or_zero_eq: "or_zero v = (case v of None \<Rightarrow> 0 | Some n \<Rightarrow> n)"
  by (simp add: or_zero_def split: option.splits)

lemma flops_cell_spec: "flops_cell (find_row rows pv batt) = spec_cell ''total_flops'' rows pv batt"
  by (simp add: flops_cell_def find_row_def spec_cell_def metric_or_0_def or_zero_eq
      split: option.splits)

lemma double_times_0: "double_times 0 b = Number 0"
  by (simp add: double_times_def binary64_def)

lemma double_divide_0: "double_divide 0 b = Number 0"
  by (simp add: double_divide_def binary64_def)

lemma utilization_cell_spec:
  "utilization_cell (find_row rows pv batt) =
     double_times (spec_cell ''utilization'' rows pv batt) 100"
  by (simp add: utilization_cell_def find_row_def spec_cell_def metric_or_0_def or_zero_eq
      double_times_0 split: option.splits)

lemma utilizationMatrix_eq:
  "utilizationMatrix d =
     map (\<lambda>batt. map (\<lambda>pv. double_times (spec_cell ''utilization'' (sw_data d) pv batt) 100)
            (pvSizes d)) (battSizes d)"
  by (simp add: utilizationMatrix_def batt_loop_eq utilization_cell_spec)

lemma flopsMatrix_eq:
  "flopsMatrix d =
     map (\<lambda>batt. map (\<lambda>pv. spec_cell ''total_flops'' (sw_data d) pv batt) (pvSizes d)) (battSizes d)"
  by (simp add: flopsMatrix_def batt_loop_eq flops_cell_spec)

lemma utilizationHeatmap_z:
  "hm_z (utilizationHeatmap d) =
     map (\<lambda>batt. map (\<lambda>pv. double_times (spec_cell ''utilization'' (sw_data d) pv batt) 100)
            (pvSizes d)) (battSizes d)"
  by (simp add: utilizationHeatmap_def utilizationMatrix_eq)

lemma flopsHeatmap_z:
  "hm_z (flopsHeatmap d) =
     map (\<lambda>batt. map (\<lambda>pv. double_divide (spec_cell ''total_flops'' (sw_data d) pv batt) (10 ^ 15))
            (pvSizes d)) (battSizes d)"
  by (simp add: flopsHeatmap_def flopsMatrix_eq comp_def)

lemma heatmap_axes:
  "hm_x (utilizationHeatmap d) = pvSizes d" "hm_y (utilizationHeatmap d) = battSizes d"
  "hm_x (flopsHeatmap d) = pvSizes d" "hm_y (flopsHeatmap d) = battSizes d"
  by (simp_all add: utilizationHeatmap_def flopsHeatmap_def)

lemma distinct_pvSizes: "distinct (pvSizes d)"
  by (simp add: pvSizes_def distinct_sort_numeric distinct_new_Set)

lemma set_pvSizes: "set (pvSizes d) = (\<lambda>r. r ''pv_kw'') ` set (sw_data d)"
  by (simp add: pvSizes_def set_sort_numeric set_new_Set)

lemma sorted_pvSizes: "sorted_wrt sorts_before (pvSizes d)"
  by (simp add: pvSizes_def sorted_sort_numeric distinct_new_Set)

lemma distinct_battSizes: "distinct (battSizes d)"
  by (simp add: battSizes_def distinct_sort_numeric distinct_new_Set)

lemma set_battSizes: "set (battSizes d) = (\<lambda>r. r ''batt_kwh'') ` set (sw_data d)"
  by (simp add: battSizes_def set_sort_numeric set_new_Set)

lemma sorted_battSizes: "sorted_wrt sorts_before (battSizes d)"
  by (simp add: battSizes_def sorted_sort_numeric distinct_new_Set)

lemma flopsMatrix_nth:
  "i < length (battSizes d) \<Longrightarrow> j < length (pvSizes d) \<Longrightarrow>
   flopsMatrix d ! i ! j = spec_cell ''total_flops'' (sw_data d) (pvSizes d ! j) (battSizes d ! i)"
  by (simp add: flopsMatrix_eq)

lemma utilizationHeatmap_nth:
  "i < length (battSizes d) \<Longrightarrow> j < length (pvSizes d) \<Longrightarrow>
   hm_z (utilizationHeatmap d) ! i ! j =
     double_times (spec_cell ''utilization'' (sw_data d) (pvSizes d ! j) (battSizes d ! i)) 100"
  by (simp add: utilizationHeatmap_z)

lemma flopsHeatmap_nth:
  "i < length (battSizes d) \<Longrightarrow> j < length (pvSizes d) \<Longrightarrow>
   hm_z (flopsHeatmap d) ! i ! j =
     double_divide (spec_cell ''total_flops'' (sw_data d) (pvSizes d ! j) (battSizes d ! i))
       (10 ^ 15)"
  by (simp add: flopsHeatmap_z)

lemma empty_rows:
  "sw_data d = [] \<Longrightarrow>
   pvSizes d = [] \<and> battSizes d = [] \<and> flopsMatrix d = [] \<and> utilizationMatrix d = [] \<and>
   hm_z (flopsHeatmap d) = [] \<and> hm_z (utilizationHeatmap d) = []"
  by (simp add: flopsHeatmap_z utilizationHeatmap_z flopsMatrix_eq utilizationMatrix_eq)
     (simp add: pvSizes_def battSizes_def new_Set_def sort_numeric_def List.map_filter_simps)

lemma example_pvSizes: "pvSizes example_sweep = [Some 1, Some 2]"
  by (simp add: pvSizes_def example_sweep_def new_Set_def sort_numeric_def List.map_filter_simps)

lemma example_battSizes: "battSizes example_sweep = [Some 2, Some 4]"
  by (simp add: battSizes_def example_sweep_def new_Set_def sort_numeric_def List.map_filter_simps)

lemma example_cells:
  "spec_cell ''total_flops'' (sw_data example_sweep) (Some 1) (Some 2) = 10"
  "spec_cell ''total_flops'' (sw_data example_sweep) (Some 2) (Some 2) = 20"
  "spec_cell ''total_flops'' (sw_data example_sweep) (Some 1) (Some 4) = 30"
  "spec_cell ''total_flops'' (sw_data example_sweep) (Some 2) (Some 4) = 0"
  "spec_cell ''utilization'' (sw_data example_sweep) (Some 2) (Some 2) = 0"
  by (simp_all add: spec_cell_def metric_or_0_def example_sweep_def)

lemma find_unique_key:
  "distinct (map f rows) \<Longrightarrow> r \<in> set rows \<Longrightarrow> find (\<lambda>q. f q = f r) rows = Some r"
  by (induction rows) (auto simp: image_iff)

lemma spec_cell_of_row:
  assumes "distinct (map (\<lambda>r. (r ''pv_kw'', r ''batt_kwh'')) rows)" and "r \<in> set rows"
  shows "spec_cell metric rows (r ''pv_kw'') (r ''batt_kwh'') = metric_or_0 metric r"
proof -
  have "find (\<lambda>q. (q ''pv_kw'', q ''batt_kwh'') = (r ''pv_kw'', r ''batt_kwh'')) rows = Some r"
    using assms by (rule find_unique_key)
  then show ?thesis by (simp add: spec_cell_def)
qed

lemma index_of_member: "v \<in> set xs \<Longrightarrow> \<exists>i<length xs. xs ! i = v"
  by (auto simp: in_set_conv_nth)

lemma dense_pvSizes: "pvSizes dense_sweep = [Some 1, Some 2]"
  by (simp add: pvSizes_def dense_sweep_def dense_row_def new_Set_def sort_numeric_def
      List.map_filter_simps)

lemma dense_battSizes: "battSizes dense_sweep = [Some 2, Some 4]"
  by (simp add: battSizes_def dense_sweep_def dense_row_def new_Set_def sort_numeric_def
      List.map_filter_simps)

lemma dense_row_fields:
  "dense_row ''pv_kw'' = Some 1" "dense_row ''batt_kwh'' = Some 4"
  "metric_or_0 ''utilization'' dense_row = 3 / 4" "metric_or_0 ''total_flops'' dense_row = 30"
  by (simp_all add: dense_row_def metric_or_0_def)

lemma dense_row_member: "dense_row \<in> set (sw_data dense_sweep)"
  by (simp add: dense_sweep_def)

lemma dense_distinct:
  "distinct (map (\<lambda>r. (r ''pv_kw'', r ''batt_kwh'')) (sw_data dense_sweep))"
  by (simp add: dense_sweep_def dense_row_def)

lemma rounding_axes: "pvSizes rounding_sweep = [Some 1]" "battSizes rounding_sweep = [Some 2]"
  by (simp_all add: pvSizes_def battSizes_def rounding_sweep_def new_Set_def sort_numeric_def
      List.map_filter_simps)

lemma rounding_cells:
  "spec_cell ''utilization'' (sw_data rounding_sweep) (Some 1) (Some 2) =
     1261007895663739 / 18014398509481984"
  "spec_cell ''total_flops'' (sw_data rounding_sweep) (Some 1) (Some 2) = 99999999999999991611392"
  by (simp_all add: spec_cell_def metric_or_0_def rounding_sweep_def)

text \<open>Evaluation of the rounding on numerals.\<close>

lemma floor_rat_numeral: "\<lfloor>numeral a / numeral b :: rat\<rfloor> = numeral a div numeral b"
  using floor_divide_of_int_eq [of "numeral a" "numeral b", where ?'a = rat] by simp

lemma ceiling_rat_numeral: "\<lceil>numeral a / numeral b :: rat\<rceil> = - (- numeral a div numeral b)"
  using floor_divide_of_int_eq [of "- numeral a" "numeral b", where ?'a = rat]
  by (simp add: ceiling_def)

lemma bit_length_0: "bit_length 0 = 0"
  by (simp add: bit_length.simps)

lemma bit_length_1: "bit_length 1 = 1"
  by (subst bit_length.simps) (simp add: bit_length_0)

lemma bit_length_Suc_0: "bit_length (Suc 0) = 1"
  using bit_length_1 by simp

lemma bit_length_Bit0: "bit_length (numeral (Num.Bit0 n)) = Suc (bit_length (numeral n))"
  by (subst bit_length.simps) simp

lemma bit_length_Bit1: "bit_length (numeral (Num.Bit1 n)) = Suc (bit_length (numeral n))"
  by (subst bit_length.simps) simp

lemmas binary64_eval =
  double_times_def double_divide_def binary64_def log2_floor_def pow2_def round_half_even_def
  Let_def floor_rat_numeral ceiling_rat_numeral
  bit_length_0 bit_length_1 bit_length_Suc_0 bit_length_Bit0 bit_length_Bit1

text \<open>
  Values of the double operations: \<^verbatim>\<open>0.07 * 100\<close> is \<^verbatim>\<open>7.000000000000001\<close>,
  \<^verbatim>\<open>1e23 / 1e15\<close> is \<^verbatim>\<open>99999999.99999999\<close>, \<^verbatim>\<open>0.75 * 100\<close> is \<^verbatim>\<open>75\<close> and \<^verbatim>\<open>30 / 1e15\<close> is
  \<^verbatim>\<open>3e-14\<close>.
\<close>

lemma double_times_7_percent:
  "double_times (1261007895663739 / 18014398509481984) 100 =
     Number (7881299347898369 / 1125899906842624)"
  by (simp add: binary64_eval)

lemma double_divide_1e23:
  "double_divide 99999999999999991611392 1000000000000000 =
     Number (6710886399999999 / 67108864)"
  by (simp add: binary64_eval)

lemma double_times_75_percent: "double_times (3 / 4) 100 = Number 75"
  by (simp add: binary64_eval)

lemma double_divide_30:
  "double_divide 30 1000000000000000 =
     Number (1188422437713965 / 39614081257132168796771975168)"
  by (simp add: binary64_eval)

text \<open>
  C1, as claimed, fails: for a single row with utilization \<^verbatim>\<open>0.07\<close> and total_flops
  \<^verbatim>\<open>1e23\<close>, the one cell of the returned utilization matrix is \<^verbatim>\<open>7.000000000000001\<close> and
  the one cell of the returned flops matrix is \<^verbatim>\<open>99999999.99999999\<close>: neither is the
  metric field of the row.
\<close>

theorem pivot_cell_counterexample:
  "hm_x (utilizationHeatmap rounding_sweep) = [Some 1] \<and>
   hm_y (utilizationHeatmap rounding_sweep) = [Some 2] \<and>
   spec_cell ''utilization'' (sw_data rounding_sweep) (Some 1) (Some 2) =
     1261007895663739 / 18014398509481984 \<and>
   hm_z (utilizationHeatmap rounding_sweep) =
     [[Number (7881299347898369 / 1125899906842624)]] \<and>
   hm_z (utilizationHeatmap rounding_sweep) ! 0 ! 0 \<noteq>
     Number (spec_cell ''utilization'' (sw_data rounding_sweep) (Some 1) (Some 2)) \<and>
   spec_cell ''total_flops'' (sw_data rounding_sweep) (Some 1) (Some 2) =
     99999999999999991611392 \<and>
   hm_z (flopsHeatmap rounding_sweep) = [[Number (6710886399999999 / 67108864)]] \<and>
   hm_z (flopsHeatmap rounding_sweep) ! 0 ! 0 \<noteq>
     Number (spec_cell ''total_flops'' (sw_data rounding_sweep) (Some 1) (Some 2))"
  by (simp add: utilizationHeatmap_z flopsHeatmap_z heatmap_axes rounding_axes
      rounding_cells double_times_7_percent double_divide_1e23)

text \<open>
  C1, amended. For every row set, the axis sequences are the distinct \<open>pv_kw\<close> values and
  the distinct \<open>batt_kwh\<close> values of the rows, each once and in ascending numeric order (a
  row that lacks the field contributes \<^verbatim>\<open>undefined\<close>, which stands last); both heatmaps
  carry them as \<open>x\<close> and \<open>y\<close>. Each matrix has one row per \<open>batt_kwh\<close> value and one column
  per \<open>pv_kw\<close> value. With the metric of a pair read as the field of the first row whose
  \<open>pv_kw\<close> is the \<open>j\<close>-th and whose \<open>batt_kwh\<close> is the \<open>i\<close>-th axis value, \<open>0\<close> when that row
  lacks the field or no row has the pair: cell \<open>i, j\<close> of the returned utilization matrix
  is the double product of the \<open>utilization\<close> metric and \<open>100\<close>, cell \<open>i, j\<close> of the
  returned flops matrix is the double quotient of the \<open>total_flops\<close> metric by \<open>10^15\<close>,
  and only the local \<open>flopsMatrix\<close>, before that division, holds the metric itself. An
  empty row set gives empty axes and empty matrices.
\<close>

theorem sweep_pivot_matrix:
  "distinct (pvSizes d) \<and> set (pvSizes d) = (\<lambda>r. r ''pv_kw'') ` set (sw_data d) \<and>
   sorted_wrt sorts_before (pvSizes d) \<and>
   distinct (battSizes d) \<and> set (battSizes d) = (\<lambda>r. r ''batt_kwh'') ` set (sw_data d) \<and>
   sorted_wrt sorts_before (battSizes d) \<and>
   hm_x (flopsHeatmap d) = pvSizes d \<and> hm_y (flopsHeatmap d) = battSizes d \<and>
   hm_x (utilizationHeatmap d) = pvSizes d \<and> hm_y (utilizationHeatmap d) = battSizes d \<and>
   length (hm_z (utilizationHeatmap d)) = length (battSizes d) \<and>
   length (hm_z (flopsHeatmap d)) = length (battSizes d) \<and>
   length (flopsMatrix d) = length (battSizes d) \<and>
   (\<forall>i<length (battSizes d).
      length (hm_z (utilizationHeatmap d) ! i) = length (pvSizes d) \<and>
      length (hm_z (flopsHeatmap d) ! i) = length (pvSizes d) \<and>
      length (flopsMatrix d ! i) = length (pvSizes d) \<and>
      (\<forall>j<length (pvSizes d).
         hm_z (utilizationHeatmap d) ! i ! j =
           double_times
             (spec_cell ''utilization'' (sw_data d) (pvSizes d ! j) (battSizes d ! i)) 100 \<and>
         hm_z (flopsHeatmap d) ! i ! j =
           double_divide
             (spec_cell ''total_flops'' (sw_data d) (pvSizes d ! j) (battSizes d ! i))
             (10 ^ 15) \<and>
         flopsMatrix d ! i ! j =
           spec_cell ''total_flops'' (sw_data d) (pvSizes d ! j) (battSizes d ! i))) \<and>
   (sw_data d = [] \<longrightarrow>
      pvSizes d = [] \<and> battSizes d = [] \<and> flopsMatrix d = [] \<and>
      hm_z (flopsHeatmap d) = [] \<and> hm_z (utilizationHeatmap d) = [])"
proof (intro conjI allI impI)
  show "distinct (pvSizes d)" by (rule distinct_pvSizes)
  show "set (pvSizes d) = (\<lambda>r. r ''pv_kw'') ` set (sw_data d)" by (rule set_pvSizes)
  show "sorted_wrt sorts_before (pvSizes d)" by (rule sorted_pvSizes)
  show "distinct (battSizes d)" by (rule distinct_battSizes)
  show "set (battSizes d) = (\<lambda>r. r ''batt_kwh'') ` set (sw_data d)" by (rule set_battSizes)
  show "sorted_wrt sorts_before (battSizes d)" by (rule sorted_battSizes)
  show "hm_x (flopsHeatmap d) = pvSizes d" "hm_y (flopsHeatmap d) = battSizes d"
    "hm_x (utilizationHeatmap d) = pvSizes d" "hm_y (utilizationHeatmap d) = battSizes d"
    by (rule heatmap_axes)+
  show "length (hm_z (utilizationHeatmap d)) = length (battSizes d)"
    by (simp add: utilizationHeatmap_z)
  show "length (hm_z (flopsHeatmap d)) = length (battSizes d)"
    by (simp add: flopsHeatmap_z)
  show "length (flopsMatrix d) = length (battSizes d)" by (simp add: flopsMatrix_eq)
next
  fix i assume i: "i < length (battSizes d)"
  show "length (hm_z (utilizationHeatmap d) ! i) = length (pvSizes d)"
    using i by (simp add: utilizationHeatmap_z)
  show "length (hm_z (flopsHeatmap d) ! i) = length (pvSizes d)"
    using i by (simp add: flopsHeatmap_z)
  show "length (flopsMatrix d ! i) = length (pvSizes d)" using i by (simp add: flopsMatrix_eq)
  fix j assume j: "j < length (pvSizes d)"
  show "hm_z (utilizationHeatmap d) ! i ! j =
      double_times (spec_cell ''utilization'' (sw_data d) (pvSizes d ! j) (battSizes d ! i)) 100"
    using i j by (rule utilizationHeatmap_nth)
  show "hm_z (flopsHeatmap d) ! i ! j =
      double_divide (spec_cell ''total_flops'' (sw_data d) (pvSizes d ! j) (battSizes d ! i))
        (10 ^ 15)"
    using i j by (rule flopsHeatmap_nth)
  show "flopsMatrix d ! i ! j =
      spec_cell ''total_flops'' (sw_data d) (pvSizes d ! j) (battSizes d ! i)"
    using i j by (rule flopsMatrix_nth)
next
  assume e: "sw_data d = []"
  show "pvSizes d = []" "battSizes d = []" "flopsMatrix d = []"
    "hm_z (flopsHeatmap d) = []" "hm_z (utilizationHeatmap d) = []"
    using empty_rows [OF e] by simp_all
qed

theorem sweep_pivot_matrix_witness:
  "pvSizes example_sweep = [Some 1, Some 2] \<and> battSizes example_sweep = [Some 2, Some 4] \<and>
   length (hm_z (flopsHeatmap example_sweep)) = 2 \<and>
   length (hm_z (flopsHeatmap example_sweep) ! 0) = 2 \<and>
   length (hm_z (flopsHeatmap example_sweep) ! 1) = 2 \<and>
   flopsMatrix example_sweep ! 0 ! 0 = 10 \<and> flopsMatrix example_sweep ! 0 ! 1 = 20 \<and>
   flopsMatrix example_sweep ! 1 ! 0 = 30 \<and> flopsMatrix example_sweep ! 1 ! 1 = 0 \<and>
   hm_z (flopsHeatmap example_sweep) ! 1 ! 0 =
     Number (1188422437713965 / 39614081257132168796771975168) \<and>
   hm_z (flopsHeatmap example_sweep) ! 1 ! 1 = Number 0 \<and>
   hm_z (utilizationHeatmap example_sweep) ! 0 ! 1 = Number 0"
proof -
  note px = example_pvSizes and py = example_battSizes
  note t = sweep_pivot_matrix [of example_sweep]
  have len: "length (hm_z (flopsHeatmap example_sweep)) = 2"
    using t by (simp add: px py)
  have row: "length (hm_z (flopsHeatmap example_sweep) ! i) = 2" if "i < 2" for i
    using t that by (simp add: px py)
  have cell: "flopsMatrix example_sweep ! i ! j =
      spec_cell ''total_flops'' (sw_data example_sweep) ([Some 1, Some 2] ! j) ([Some 2, Some 4] ! i)"
    if "i < 2" "j < 2" for i j
    using t that by (simp add: px py)
  have ucell: "hm_z (utilizationHeatmap example_sweep) ! i ! j =
      double_times
        (spec_cell ''utilization'' (sw_data example_sweep) ([Some 1, Some 2] ! j)
           ([Some 2, Some 4] ! i)) 100"
    if "i < 2" "j < 2" for i j
    using t that by (simp add: px py)
  have hcell: "hm_z (flopsHeatmap example_sweep) ! i ! j =
      double_divide
        (spec_cell ''total_flops'' (sw_data example_sweep) ([Some 1, Some 2] ! j)
           ([Some 2, Some 4] ! i)) (10 ^ 15)"
    if "i < 2" "j < 2" for i j
    using t that by (simp add: px py)
  show ?thesis
    using len row [of 0] row [of 1] cell [of 0 0] cell [of 0 1] cell [of 1 0] cell [of 1 1]
      ucell [of 0 1] hcell [of 1 0] hcell [of 1 1]
    by (simp add: px py example_cells double_times_0 double_divide_0 double_divide_30)
qed

text \<open>
  C9, as claimed, fails: in the dense grid the row with \<open>pv_kw = 1\<close> and \<open>batt_kwh = 4\<close>
  has utilization \<^verbatim>\<open>0.75\<close> and total_flops \<open>30\<close>; read back at the indices of its
  \<open>batt_kwh\<close> and its \<open>pv_kw\<close>, the returned utilization matrix holds \<open>75\<close> and the
  returned flops matrix holds \<^verbatim>\<open>3e-14\<close>.
\<close>

theorem round_trip_counterexample:
  "distinct (map (\<lambda>r. (r ''pv_kw'', r ''batt_kwh'')) (sw_data dense_sweep)) \<and>
   set (map (\<lambda>r. (r ''pv_kw'', r ''batt_kwh'')) (sw_data dense_sweep)) =
     {Some 1, Some 2} \<times> {Some 2, Some 4} \<and>
   dense_row \<in> set (sw_data dense_sweep) \<and>
   hm_y (utilizationHeatmap dense_sweep) ! 1 = dense_row ''batt_kwh'' \<and>
   hm_x (utilizationHeatmap dense_sweep) ! 0 = dense_row ''pv_kw'' \<and>
   metric_or_0 ''utilization'' dense_row = 3 / 4 \<and>
   hm_z (utilizationHeatmap dense_sweep) ! 1 ! 0 = Number 75 \<and>
   metric_or_0 ''total_flops'' dense_row = 30 \<and>
   hm_z (flopsHeatmap dense_sweep) ! 1 ! 0 =
     Number (1188422437713965 / 39614081257132168796771975168)"
proof -
  have g: "set (map (\<lambda>r. (r ''pv_kw'', r ''batt_kwh'')) (sw_data dense_sweep)) =
      {Some 1, Some 2} \<times> {Some 2, Some 4}"
    by (auto simp: dense_sweep_def dense_row_def)
  have u: "spec_cell ''utilization'' (sw_data dense_sweep) (Some 1) (Some 4) = 3 / 4"
    "spec_cell ''total_flops'' (sw_data dense_sweep) (Some 1) (Some 4) = 30"
    by (simp_all add: spec_cell_def metric_or_0_def dense_sweep_def dense_row_def)
  show ?thesis
    using g dense_distinct dense_row_member
    by (simp add: utilizationHeatmap_z flopsHeatmap_z heatmap_axes dense_pvSizes
        dense_battSizes dense_row_fields u double_times_75_percent double_divide_30)
qed

text \<open>
  C9, amended. Round trip: when no two rows share an \<open>(x, y)\<close> pair, as in a fully dense
  grid with exactly one row per pair, every row \<open>r\<close> has a cell, at the row index of its
  \<open>batt_kwh\<close> and the column index of its \<open>pv_kw\<close>, and the cell at these indices holds
  the display conversion of the metric of \<open>r\<close> itself: the double product of its
  \<open>utilization\<close> and \<open>100\<close> in the returned utilization matrix, the double quotient of
  its \<open>total_flops\<close> by \<open>10^15\<close> in the returned flops matrix; only the local
  \<open>flopsMatrix\<close> holds its \<open>total_flops\<close> unchanged.
\<close>

theorem sweep_round_trip:
  assumes "distinct (map (\<lambda>r. (r ''pv_kw'', r ''batt_kwh'')) (sw_data d))"
    and "r \<in> set (sw_data d)"
  shows "(\<exists>i<length (hm_y (utilizationHeatmap d)). \<exists>j<length (hm_x (utilizationHeatmap d)).
            hm_y (utilizationHeatmap d) ! i = r ''batt_kwh'' \<and>
            hm_x (utilizationHeatmap d) ! j = r ''pv_kw'') \<and>
         hm_x (flopsHeatmap d) = hm_x (utilizationHeatmap d) \<and>
         hm_y (flopsHeatmap d) = hm_y (utilizationHeatmap d) \<and>
         (\<forall>i<length (hm_y (utilizationHeatmap d)). \<forall>j<length (hm_x (utilizationHeatmap d)).
            hm_y (utilizationHeatmap d) ! i = r ''batt_kwh'' \<and>
            hm_x (utilizationHeatmap d) ! j = r ''pv_kw'' \<longrightarrow>
              hm_z (utilizationHeatmap d) ! i ! j =
                double_times (metric_or_0 ''utilization'' r) 100 \<and>
              hm_z (flopsHeatmap d) ! i ! j =
                double_divide (metric_or_0 ''total_flops'' r) (10 ^ 15) \<and>
              flopsMatrix d ! i ! j = metric_or_0 ''total_flops'' r)"
proof -
  note ax = heatmap_axes [of d]
  have mem: "r ''batt_kwh'' \<in> set (battSizes d)" "r ''pv_kw'' \<in> set (pvSizes d)"
    using assms(2) by (simp_all add: set_battSizes set_pvSizes)
  have ex: "\<exists>i<length (battSizes d). \<exists>j<length (pvSizes d).
      battSizes d ! i = r ''batt_kwh'' \<and> pvSizes d ! j = r ''pv_kw''"
    using index_of_member [OF mem(1)] index_of_member [OF mem(2)] by blast
  have cells: "hm_z (utilizationHeatmap d) ! i ! j =
        double_times (metric_or_0 ''utilization'' r) 100 \<and>
      hm_z (flopsHeatmap d) ! i ! j = double_divide (metric_or_0 ''total_flops'' r) (10 ^ 15) \<and>
      flopsMatrix d ! i ! j = metric_or_0 ''total_flops'' r"
    if i: "i < length (battSizes d)" and j: "j < length (pvSizes d)"
      and lab: "battSizes d ! i = r ''batt_kwh'' \<and> pvSizes d ! j = r ''pv_kw''" for i j
    using utilizationHeatmap_nth [OF i j] flopsHeatmap_nth [OF i j] flopsMatrix_nth [OF i j]
      lab spec_cell_of_row [OF assms] by simp
  show ?thesis
    unfolding ax using ex cells by blast
qed

theorem sweep_round_trip_witness:
  "distinct (map (\<lambda>r. (r ''pv_kw'', r ''batt_kwh'')) (sw_data dense_sweep)) \<and>
   dense_row \<in> set (sw_data dense_sweep) \<and>
   hm_y (utilizationHeatmap dense_sweep) ! 1 = Some 4 \<and>
   hm_x (utilizationHeatmap dense_sweep) ! 0 = Some 1 \<and>
   hm_z (utilizationHeatmap dense_sweep) ! 1 ! 0 = Number 75 \<and>
   hm_z (flopsHeatmap dense_sweep) ! 1 ! 0 =
     Number (1188422437713965 / 39614081257132168796771975168) \<and>
   flopsMatrix dense_sweep ! 1 ! 0 = 30"
proof -
  have ax: "hm_x (utilizationHeatmap dense_sweep) = [Some 1, Some 2]"
    "hm_y (utilizationHeatmap dense_sweep) = [Some 2, Some 4]"
    by (simp_all add: heatmap_axes dense_pvSizes dense_battSizes)
  have c: "hm_z (utilizationHeatmap dense_sweep) ! 1 ! 0 =
        double_times (metric_or_0 ''utilization'' dense_row) 100 \<and>
      hm_z (flopsHeatmap dense_sweep) ! 1 ! 0 =
        double_divide (metric_or_0 ''total_flops'' dense_row) (10 ^ 15) \<and>
      flopsMatrix dense_sweep ! 1 ! 0 = metric_or_0 ''total_flops'' dense_row"
    using sweep_round_trip [OF dense_distinct dense_row_member]
    by (simp add: ax dense_row_fields)
  show ?thesis
    using c dense_distinct dense_row_member
    by (simp add: ax dense_row_fields double_times_75_percent double_divide_30)
qed


section \<open>Properties of the run orchestrator\<close>






subsection \<open>The effects\<close>


lemma effects_caches:
  "statusCache (effects before after) = statusCache after"
  "timeseriesCache (effects before after) = timeseriesCache after"
  "sweepCache (effects before after) = sweepCache after"
  by (simp_all add: effects_def)

lemma effects_runId: "runId (hook (effects before after)) = runId (hook after)"
  by (simp add: effects_def pollStatus_effect_def timeseriesData_effect_def
      sweepData_effect_def split: option.splits)


lemma effects_pollStatus: "pollStatus (effects before after) = pollStatus after"
  by (simp add: pollStatus_def effects_caches effects_runId)

subsection \<open>A poll that settles\<close>





lemma poll_settled_runId: "runId (hook (poll_settled outcome w)) = runId (hook w)"
  by (cases outcome)
     (simp_all add: poll_settled_def poll_fetched_def effects_runId)



subsection \<open>Sequences of events\<close>














subsection \<open>The example worlds\<close>

text \<open>The state \<open>done_state\<close> is reached by a submission, a poll and a timeseries fetch.\<close>

lemma done_state_reachable:
  "hook (run initial_world
       [RunSingle () () (Fulfilled \<lparr>run_id = ''run-1''\<rparr>),
        PollSettled (Fulfilled (status_of Done 100 ''Complete'')),
        TimeseriesSettled
          (Fulfilled \<lparr>ts_index = [''t0''], ts_columns = [''p''], ts_data = [[1]]\<rparr>)]) =
   done_state"
  by (simp add: run_def runSingle_def mutateAsync_def onSuccess_def clear_artifacts_def
      initial_state_def initial_world_def done_state_def poll_settled_def poll_fetched_def
      timeseries_fetched_def effects_def pollStatus_effect_def timeseriesData_effect_def
      sweepData_effect_def changed_def pollStatus_def timeseriesData_def sweepData_def
      pollQuery_def timeseriesQuery_def truthy_def isRunning_def status_status_def status_of_def)






subsection \<open>The lifecycle of \<open>isRunning\<close>\<close>




subsection \<open>The polling gate\<close>




lemma done_disabled: "\<not> enabled (pollQuery done_state)"
  by (simp add: done_state_def pollQuery_def isRunning_def status_status_def status_of_def)


subsection \<open>The commands and the artifact fetches\<close>

text \<open>
  On the hook's state, an artifact fetch in the world is the hook-level fetch above
  whenever its result is not the data already held for the handle, and whenever it fails.
\<close>

lemma sweep_event_hook:
  "sweepData w \<noteq> Some d \<Longrightarrow>
   hook (step w (SweepSettled (Fulfilled d))) = sweep_settled (Fulfilled d) (hook w)"
  "hook (step w (SweepSettled (Rejected e))) = sweep_settled (Rejected e) (hook w)"
  by (auto simp: sweep_fetched_def sweep_settled_def effects_def pollStatus_effect_def
      timeseriesData_effect_def sweepData_effect_def changed_def pollStatus_def
      timeseriesData_def sweepData_def)

lemma timeseries_event_hook:
  "timeseriesData w \<noteq> Some d \<Longrightarrow>
   hook (step w (TimeseriesSettled (Fulfilled d))) = timeseries_settled (Fulfilled d) (hook w)"
  "hook (step w (TimeseriesSettled (Rejected e))) = timeseries_settled (Rejected e) (hook w)"
  by (auto simp: timeseries_fetched_def timeseries_settled_def effects_def pollStatus_effect_def
      timeseriesData_effect_def sweepData_effect_def changed_def pollStatus_def
      timeseriesData_def sweepData_def)

text \<open>
  C3. In every state, \<open>runSingle\<close> and \<open>runSweep\<close> first set the cached timeseries and the
  cached sweep to absent, leaving handle, status and error as they are; the create-run
  mutation runs on that cleared state, and whatever its outcome both caches are absent
  when the call has settled.
\<close>

theorem submit_clears_artifacts:
  "timeseries (clear_artifacts s) = None \<and> sweep (clear_artifacts s) = None \<and>
   runId (clear_artifacts s) = runId s \<and> status (clear_artifacts s) = status s \<and>
   error (clear_artifacts s) = error s \<and>
   fst (runSingle createRun cfg options s) =
     fst (mutateAsync createRun \<lparr>mode = Single, config = cfg, run_options = options\<rparr>
            (clear_artifacts s)) \<and>
   fst (runSweep createRun cfg options s) =
     fst (mutateAsync createRun \<lparr>mode = Sweep, config = cfg, run_options = options\<rparr>
            (clear_artifacts s)) \<and>
   timeseries (fst (runSingle createRun cfg options s)) = None \<and>
   sweep (fst (runSingle createRun cfg options s)) = None \<and>
   timeseries (fst (runSweep createRun cfg options s)) = None \<and>
   sweep (fst (runSweep createRun cfg options s)) = None"
proof -
  have c: "timeseries (clear_artifacts s) = None \<and> sweep (clear_artifacts s) = None \<and>
      runId (clear_artifacts s) = runId s \<and> status (clear_artifacts s) = status s \<and>
      error (clear_artifacts s) = error s"
    by (simp add: clear_artifacts_def)
  have m: "timeseries (fst (mutateAsync createRun request t)) = timeseries t \<and>
      sweep (fst (mutateAsync createRun request t)) = sweep t"
    for request :: "('a, 'b) RunRequest" and t
    by (cases "createRun request") (simp_all add: mutateAsync_def onSuccess_def onError_def)
  have f1: "fst (runSingle createRun cfg options s) =
     fst (mutateAsync createRun \<lparr>mode = Single, config = cfg, run_options = options\<rparr>
            (clear_artifacts s))"
    by (simp add: runSingle_def split: prod.splits settled.splits)
  have f2: "fst (runSweep createRun cfg options s) =
     fst (mutateAsync createRun \<lparr>mode = Sweep, config = cfg, run_options = options\<rparr>
            (clear_artifacts s))"
    by (simp add: runSweep_def split: prod.splits settled.splits)
  show ?thesis
    using c f1 f2 by (simp add: m)
qed

theorem submit_clears_artifacts_witness:
  "timeseries done_state \<noteq> None \<and> timeseries (clear_artifacts done_state) = None \<and>
   sweep (clear_artifacts done_state) = None \<and>
   runId (clear_artifacts done_state) = Some ''run-1'' \<and>
   timeseries (fst (runSingle (\<lambda>request. Rejected server_error) () () done_state)) = None \<and>
   timeseries (fst (runSweep (\<lambda>request. Fulfilled \<lparr>run_id = ''run-2''\<rparr>) () () done_state)) = None"
proof -
  have a: "timeseries done_state \<noteq> None" "runId done_state = Some ''run-1''"
    by (simp_all add: done_state_def)
  have b: "timeseries (clear_artifacts done_state) = None"
    "sweep (clear_artifacts done_state) = None"
    "runId (clear_artifacts done_state) = runId done_state"
    "timeseries (fst (runSingle (\<lambda>request. Rejected server_error) () () done_state)) = None"
    using submit_clears_artifacts [of done_state "\<lambda>request. Rejected server_error" "()" "()"]
    by blast+
  have c: "timeseries (fst (runSweep (\<lambda>request. Fulfilled \<lparr>run_id = ''run-2''\<rparr>) () ()
      done_state)) = None"
    using submit_clears_artifacts [of done_state "\<lambda>request. Fulfilled \<lparr>run_id = ''run-2''\<rparr>" "()" "()"]
    by blast
  show ?thesis
    using a b c by simp
qed

text \<open>
  The clearing is not final while the previous run is still the current one: its handle and
  its \<open>done\<close> status keep the timeseries query enabled, and a response that arrives
  after the clearing is stored.
\<close>

lemma late_response_refills_cache:
  "enabled (timeseriesQuery (clear_artifacts done_state)) \<and>
   timeseries (timeseries_settled (Fulfilled d) (clear_artifacts done_state)) = Some d"
  by (simp add: timeseries_settled_def timeseriesQuery_def clear_artifacts_def done_state_def
      truthy_def status_status_def status_of_def)

text \<open>
  C6. From every state \<open>reset\<close> leads to the initial state: handle, status, timeseries,
  sweep and error are all absent, nothing is running and no query is enabled.
\<close>

theorem reset_returns_to_idle:
  "runId (reset s) = None \<and> status (reset s) = None \<and> timeseries (reset s) = None \<and>
   sweep (reset s) = None \<and> error (reset s) = None \<and> reset s = initial_state \<and>
   \<not> isRunning (reset s) \<and> \<not> enabled (pollQuery (reset s)) \<and>
   \<not> enabled (timeseriesQuery (reset s)) \<and> \<not> enabled (sweepQuery (reset s))"
  by (simp add: reset_def initial_state_def isRunning_def status_status_def pollQuery_def
      timeseriesQuery_def sweepQuery_def truthy_def)

theorem reset_returns_to_idle_witness:
  "done_state \<noteq> initial_state \<and> reset done_state = initial_state \<and>
   runId (reset (onError server_error done_state)) = None \<and>
   error (onError server_error done_state) = Some server_error \<and>
   error (reset (onError server_error done_state)) = None"
  using reset_returns_to_idle [of done_state]
    reset_returns_to_idle [of "onError server_error done_state"]
  by (simp add: done_state_def initial_state_def onError_def)

lemma runSingle_Rejected:
  "createRun \<lparr>mode = Single, config = cfg, run_options = options\<rparr> = Rejected e \<Longrightarrow>
   runSingle createRun cfg options s = (onError e (clear_artifacts s), Rejected e)"
  by (simp add: runSingle_def mutateAsync_def)

lemma runSingle_Fulfilled:
  "createRun \<lparr>mode = Single, config = cfg, run_options = options\<rparr> = Fulfilled d \<Longrightarrow>
   runSingle createRun cfg options s = (onSuccess d (clear_artifacts s), Fulfilled ())"
  by (simp add: runSingle_def mutateAsync_def)

lemma runSweep_Rejected:
  "createRun \<lparr>mode = Sweep, config = cfg, run_options = options\<rparr> = Rejected e \<Longrightarrow>
   runSweep createRun cfg options s = (onError e (clear_artifacts s), Rejected e)"
  by (simp add: runSweep_def mutateAsync_def)

lemma runSweep_Fulfilled:
  "createRun \<lparr>mode = Sweep, config = cfg, run_options = options\<rparr> = Fulfilled d \<Longrightarrow>
   runSweep createRun cfg options s = (onSuccess d (clear_artifacts s), Fulfilled ())"
  by (simp add: runSweep_def mutateAsync_def)

lemma onError_frame:
  "onError e (clear_artifacts s) = s\<lparr>timeseries := None, sweep := None, error := Some e\<rparr>"
  by (simp add: onError_def clear_artifacts_def)

text \<open>
  C10. When the create-run call fails, \<open>runSingle\<close> and \<open>runSweep\<close> change the state in
  three fields only: the two artifact caches are absent and the error is the failure's
  message. Handle and status, and with them \<open>isRunning\<close>, keep their values. Submitting
  does not clear an earlier error (clearing the artifacts leaves it); only a create-run
  success sets it to absent.
\<close>

theorem failed_submission_frame:
  "(createRun \<lparr>mode = Single, config = cfg, run_options = options\<rparr> = Rejected e \<longrightarrow>
      fst (runSingle createRun cfg options s) =
        s\<lparr>timeseries := None, sweep := None, error := Some e\<rparr> \<and>
      runId (fst (runSingle createRun cfg options s)) = runId s \<and>
      status (fst (runSingle createRun cfg options s)) = status s \<and>
      isRunning (fst (runSingle createRun cfg options s)) = isRunning s) \<and>
   (createRun \<lparr>mode = Sweep, config = cfg, run_options = options\<rparr> = Rejected e \<longrightarrow>
      fst (runSweep createRun cfg options s) =
        s\<lparr>timeseries := None, sweep := None, error := Some e\<rparr> \<and>
      runId (fst (runSweep createRun cfg options s)) = runId s \<and>
      status (fst (runSweep createRun cfg options s)) = status s \<and>
      isRunning (fst (runSweep createRun cfg options s)) = isRunning s) \<and>
   error (clear_artifacts s) = error s \<and>
   (createRun \<lparr>mode = Single, config = cfg, run_options = options\<rparr> = Fulfilled d \<longrightarrow>
      error (fst (runSingle createRun cfg options s)) = None) \<and>
   (createRun \<lparr>mode = Sweep, config = cfg, run_options = options\<rparr> = Fulfilled d \<longrightarrow>
      error (fst (runSweep createRun cfg options s)) = None)"
proof (intro conjI impI)
  assume r: "createRun \<lparr>mode = Single, config = cfg, run_options = options\<rparr> = Rejected e"
  show f: "fst (runSingle createRun cfg options s) =
      s\<lparr>timeseries := None, sweep := None, error := Some e\<rparr>"
    using r by (simp add: runSingle_Rejected onError_frame)
  show "runId (fst (runSingle createRun cfg options s)) = runId s"
    "status (fst (runSingle createRun cfg options s)) = status s"
    "isRunning (fst (runSingle createRun cfg options s)) = isRunning s"
    by (simp_all add: f isRunning_def status_status_def)
next
  assume r: "createRun \<lparr>mode = Sweep, config = cfg, run_options = options\<rparr> = Rejected e"
  show f: "fst (runSweep createRun cfg options s) =
      s\<lparr>timeseries := None, sweep := None, error := Some e\<rparr>"
    using r by (simp add: runSweep_Rejected onError_frame)
  show "runId (fst (runSweep createRun cfg options s)) = runId s"
    "status (fst (runSweep createRun cfg options s)) = status s"
    "isRunning (fst (runSweep createRun cfg options s)) = isRunning s"
    by (simp_all add: f isRunning_def status_status_def)
next
  show "error (clear_artifacts s) = error s"
    by (simp add: clear_artifacts_def)
next
  assume "createRun \<lparr>mode = Single, config = cfg, run_options = options\<rparr> = Fulfilled d"
  then show "error (fst (runSingle createRun cfg options s)) = None"
    by (simp add: runSingle_Fulfilled onSuccess_def)
next
  assume "createRun \<lparr>mode = Sweep, config = cfg, run_options = options\<rparr> = Fulfilled d"
  then show "error (fst (runSweep createRun cfg options s)) = None"
    by (simp add: runSweep_Fulfilled onSuccess_def)
qed

theorem failed_submission_frame_witness:
  "runId (fst (runSingle (\<lambda>request. Rejected server_error) () () done_state)) = Some ''run-1'' \<and>
   status (fst (runSingle (\<lambda>request. Rejected server_error) () () done_state)) =
     Some (status_of Done 100 ''Complete'') \<and>
   error (fst (runSingle (\<lambda>request. Rejected server_error) () () done_state)) =
     Some server_error \<and>
   timeseries (fst (runSingle (\<lambda>request. Rejected server_error) () () done_state)) = None \<and>
   fst (runSingle (\<lambda>request. Rejected server_error) () () done_state) \<noteq> initial_state \<and>
   error (clear_artifacts (onError server_error done_state)) = Some server_error \<and>
   error (fst (runSweep (\<lambda>request. Fulfilled \<lparr>run_id = ''run-2''\<rparr>) () ()
     (onError server_error done_state))) = None"
proof -
  let ?fail = "\<lambda>request :: (unit, unit) RunRequest. (Rejected server_error :: RunResponse settled)"
  let ?ok = "\<lambda>request :: (unit, unit) RunRequest. Fulfilled \<lparr>run_id = ''run-2''\<rparr>"
  have f: "fst (runSingle ?fail () () done_state) =
      done_state\<lparr>timeseries := None, sweep := None, error := Some server_error\<rparr>"
    using failed_submission_frame [of ?fail "()" "()" server_error done_state] by simp
  have c: "error (clear_artifacts (onError server_error done_state)) =
      error (onError server_error done_state)"
    using failed_submission_frame [of ?fail "()" "()" server_error
        "onError server_error done_state"] by blast
  have g: "error (fst (runSweep ?ok () () (onError server_error done_state))) = None"
    using failed_submission_frame [of ?ok "()" "()" _ "onError server_error done_state"
        "\<lparr>run_id = ''run-2''\<rparr>"] by simp
  have v: "runId (done_state\<lparr>timeseries := None, sweep := None, error := Some server_error\<rparr>) =
      Some ''run-1''"
    "status (done_state\<lparr>timeseries := None, sweep := None, error := Some server_error\<rparr>) =
      Some (status_of Done 100 ''Complete'')"
    "done_state\<lparr>timeseries := None, sweep := None, error := Some server_error\<rparr> \<noteq> initial_state"
    "error (onError server_error done_state) = Some server_error"
    by (simp_all add: done_state_def initial_state_def onError_def)
  show ?thesis
    unfolding f c using g v by simp
qed

text \<open>
  C5, as claimed, fails: when the create-run call is rejected, the promise \<open>runSingle\<close>
  (or \<open>runSweep\<close>) returned to its caller is rejected with the same error.
\<close>

theorem submit_rejection_counterexample:
  "snd (runSingle (\<lambda>request. Rejected server_error) () () initial_state) = Rejected server_error \<and>
   snd (runSweep (\<lambda>request. Rejected server_error) () () initial_state) = Rejected server_error"
  by (simp add: runSingle_def runSweep_def mutateAsync_def)

text \<open>
  C5, amended. \<open>runSingle\<close> and \<open>runSweep\<close> capture a create-run failure as the
  orchestrator's error string and also reject the promise they return, with the same
  error; on a create-run success the promise fulfils and the error is absent. (\<open>reset\<close>
  is a synchronous function that only sets state: it has no failing path.)
\<close>

theorem submit_promise_outcome:
  "(createRun \<lparr>mode = Single, config = cfg, run_options = options\<rparr> = Rejected e \<longrightarrow>
      snd (runSingle createRun cfg options s) = Rejected e \<and>
      error (fst (runSingle createRun cfg options s)) = Some e) \<and>
   (createRun \<lparr>mode = Single, config = cfg, run_options = options\<rparr> = Fulfilled d \<longrightarrow>
      snd (runSingle createRun cfg options s) = Fulfilled () \<and>
      error (fst (runSingle createRun cfg options s)) = None) \<and>
   (createRun \<lparr>mode = Sweep, config = cfg, run_options = options\<rparr> = Rejected e \<longrightarrow>
      snd (runSweep createRun cfg options s) = Rejected e \<and>
      error (fst (runSweep createRun cfg options s)) = Some e) \<and>
   (createRun \<lparr>mode = Sweep, config = cfg, run_options = options\<rparr> = Fulfilled d \<longrightarrow>
      snd (runSweep createRun cfg options s) = Fulfilled () \<and>
      error (fst (runSweep createRun cfg options s)) = None)"
  by (simp add: runSingle_def runSweep_def mutateAsync_def onError_def onSuccess_def)

theorem submit_promise_outcome_witness:
  "snd (runSingle (\<lambda>request. Rejected server_error) () () done_state) = Rejected server_error \<and>
   error (fst (runSingle (\<lambda>request. Rejected server_error) () () done_state)) =
     Some server_error \<and>
   snd (runSweep (\<lambda>request. Fulfilled \<lparr>run_id = ''run-2''\<rparr>) () () done_state) = Fulfilled () \<and>
   error (fst (runSweep (\<lambda>request. Fulfilled \<lparr>run_id = ''run-2''\<rparr>) () () done_state)) = None"
proof -
  let ?fail = "\<lambda>request :: (unit, unit) RunRequest. (Rejected server_error :: RunResponse settled)"
  let ?ok = "\<lambda>request :: (unit, unit) RunRequest. Fulfilled \<lparr>run_id = ''run-2''\<rparr>"
  show ?thesis
    using submit_promise_outcome [of ?fail "()" "()" server_error done_state]
      submit_promise_outcome [of ?ok "()" "()" _ done_state "\<lparr>run_id = ''run-2''\<rparr>"]
    by simp
qed

lemma sweep_settled_Rejected: "sweep_settled (Rejected e) s = s"
  by (simp add: sweep_settled_def)

lemma sweep_enabled_done: "enabled (sweepQuery done_state)"
  by (simp add: sweepQuery_def done_state_def truthy_def status_status_def status_of_def)

text \<open>
  C4, as claimed, fails: after a run is done, a sweep fetch that fails with a server
  error leaves the error field absent.
\<close>

theorem sweep_failure_counterexample:
  "enabled (sweepQuery done_state) \<and>
   error (sweep_settled (Rejected server_error) done_state) = None \<and>
   error (sweep_settled (Rejected server_error) done_state) \<noteq> Some server_error"
  by (simp add: sweep_settled_Rejected sweep_enabled_done) (simp add: done_state_def)

text \<open>
  C4, amended. No sweep fetch failure is surfaced, whether "not found" or any other: a
  rejected sweep fetch leaves the whole state as it is, and no outcome of the sweep fetch
  changes the error field, the handle, the status or the cached timeseries.
\<close>

theorem sweep_failure_not_surfaced:
  "sweep_settled (Rejected e) s = s \<and>
   error (sweep_settled outcome s) = error s \<and>
   runId (sweep_settled outcome s) = runId s \<and>
   status (sweep_settled outcome s) = status s \<and>
   timeseries (sweep_settled outcome s) = timeseries s"
  by (cases outcome) (simp_all add: sweep_settled_def)

theorem sweep_failure_not_surfaced_witness:
  "sweep_settled (Rejected server_error) done_state = done_state \<and>
   error (sweep_settled (Rejected server_error) done_state) = None \<and>
   error (sweep_settled (Rejected not_found) (onError server_error done_state)) =
     Some server_error"
proof -
  have a: "error done_state = None" "error (onError server_error done_state) = Some server_error"
    by (simp_all add: done_state_def onError_def)
  show ?thesis
    using sweep_failure_not_surfaced [of server_error done_state "Rejected server_error"]
      sweep_failure_not_surfaced [of not_found "onError server_error done_state"
        "Rejected not_found"] a
    by simp
qed

text \<open>
  C8, as claimed, fails in its last part: what the hook returns to its consumer after a
  "not found" sweep fetch is what it returns after a sweep fetch that failed with a
  server error.
\<close>

theorem not_found_indistinguishable_counterexample:
  "not_found \<noteq> server_error \<and>
   useSimulation (sweep_settled (Rejected not_found) done_state) =
     useSimulation (sweep_settled (Rejected server_error) done_state)"
  by (simp add: sweep_settled_Rejected not_found_def server_error_def)

text \<open>
  C8, amended. A sweep fetch that is rejected, "not found" included, leaves the cached
  sweep (absent stays absent) and the error field as they are; the hook's result is
  the same as before the fetch and the same for every rejection, so its
  consumer cannot tell "not found" from another failure.
\<close>

theorem sweep_not_found_silent:
  "sweep (sweep_settled (Rejected e) s) = sweep s \<and>
   error (sweep_settled (Rejected e) s) = error s \<and>
   useSimulation (sweep_settled (Rejected e) s) = useSimulation s \<and>
   useSimulation (sweep_settled (Rejected e) s) = useSimulation (sweep_settled (Rejected e') s)"
  by (simp add: sweep_settled_Rejected)

theorem sweep_not_found_silent_witness:
  "sweep (sweep_settled (Rejected not_found) done_state) = None \<and>
   error (sweep_settled (Rejected not_found) done_state) = None \<and>
   res_sweep (useSimulation (sweep_settled (Rejected not_found) done_state)) = None \<and>
   res_error (useSimulation (sweep_settled (Rejected not_found) done_state)) = None"
proof -
  have a: "sweep done_state = None" "error done_state = None"
    "res_sweep (useSimulation done_state) = None" "res_error (useSimulation done_state) = None"
    by (simp_all add: done_state_def useSimulation_def)
  show ?thesis
    using sweep_not_found_silent [of not_found done_state] a by simp
qed

end
